theory Spec2Isabelle
  imports Main
begin

section \<open>Exceptions and string formatting\<close>

text \<open>
  Python exceptions are values.  \<open>ValueError\<close>, \<open>IndexError\<close> and \<open>KeyError\<close> carry
  their message; \<open>Exception\<close> stands for any other exception raised by caller-supplied
  or external code.
\<close>

datatype error =
    ValueError string
  | IndexError string
  | KeyError string
  | TerminationViolation
  | Exception string

text \<open>Decimal rendering of integers, as an f-string field \<^verbatim>\<open>{n}\<close> does.\<close>

definition digit_char :: "nat \<Rightarrow> char" where
  "digit_char d = ''0123456789'' ! d"

fun str_nat :: "nat \<Rightarrow> string" where
  "str_nat n = (if n < 10 then [digit_char n] else str_nat (n div 10) @ [digit_char (n mod 10)])"

declare str_nat.simps [simp del]

definition str_int :: "int \<Rightarrow> string" where
  "str_int i = (if i < 0 then ''-'' @ str_nat (nat (- i)) else str_nat (nat i))"

section \<open>Arrays\<close>

text \<open>
  A numpy array is its shape and its elements in row-major order; \<open>ndim\<close> is the length
  of the shape.  Elements are taken from a linear order.
\<close>

record 'a ndarray =
  shape :: "nat list"
  data :: "'a list"

definition ndim :: "'a ndarray \<Rightarrow> nat" where
  "ndim a = length (shape a)"

definition valid_ndarray :: "'a ndarray \<Rightarrow> bool" where
  "valid_ndarray a = (length (data a) = prod_list (shape a))"

text \<open>
  An elementwise comparison of two 1-dimensional arrays.  numpy broadcasts a length-1
  operand and raises \<open>ValueError\<close> when the lengths cannot be broadcast together.
\<close>

definition broadcast_error :: "nat \<Rightarrow> nat \<Rightarrow> error" where
  "broadcast_error n m = ValueError
     (''operands could not be broadcast together with shapes ('' @ str_nat n @ '',) (''
        @ str_nat m @ '',) '')"

definition compare1d :: "('a \<Rightarrow> 'a \<Rightarrow> bool) \<Rightarrow> 'a list \<Rightarrow> 'a list \<Rightarrow> error + bool list" where
  "compare1d p xs ys =
     (if length xs = length ys then Inr (map2 p xs ys)
      else if length xs = 1 then Inr (map (p (hd xs)) ys)
      else if length ys = 1 then Inr (map (\<lambda>x. p x (hd ys)) xs)
      else Inl (broadcast_error (length xs) (length ys)))"

text \<open>Python's builtin \<open>all\<close> over a sequence of booleans.\<close>

fun py_all :: "bool list \<Rightarrow> bool" where
  "py_all [] = True"
| "py_all (b # bs) = (if b then py_all bs else False)"

section \<open>The index protocol\<close>

text \<open>
  \<open>InternalSearchResult\<close> is what the metric-specific routine returns; \<open>SearchResult\<close>
  adds the query and the gathered vectors.
\<close>

record 'a internal_search_result =
  distances :: "'a list"
  indices :: "int list"

record 'a search_result = "'a internal_search_result" +
  query :: "'a ndarray"
  vectors :: "'a list list"

text \<open>
  An index: the abstract properties \<open>dims\<close>, \<open>bounds\<close> (rows \<open>(lower, upper)\<close>, an array
  of shape \<open>[dims, 2]\<close>) and \<open>embeddings\<close> (a matrix, as its rows), and the abstract method
  \<open>_search\<close>, here \<open>priv_search\<close>, which may raise.
\<close>

record 'a index =
  dims :: int
  bounds :: "('a \<times> 'a) list"
  embeddings :: "'a list list"
  priv_search :: "'a ndarray \<Rightarrow> int \<Rightarrow> error + 'a internal_search_result"

definition lower :: "'a index \<Rightarrow> 'a list" where
  "lower idx = map fst (bounds idx)"

definition upper :: "'a index \<Rightarrow> 'a list" where
  "upper idx = map snd (bounds idx)"

text \<open>The documented shape of \<open>bounds\<close>: one row per dimension.\<close>

definition valid_index :: "'a index \<Rightarrow> bool" where
  "valid_index idx = (dims idx = int (length (bounds idx)))"

text \<open>
  \<open>in_range\<close> on the elements of a 1-dimensional query (the only queries \<open>search\<close> passes
  to it): \<^verbatim>\<open>all(query >= self.lower) and all(query <= self.upper)\<close>.
\<close>

definition in_range :: "('a::linorder) index \<Rightarrow> 'a list \<Rightarrow> error + bool" where
  "in_range idx q =
     (case compare1d (\<lambda>x l. l \<le> x) q (lower idx) of
        Inl e \<Rightarrow> Inl e
      | Inr ge \<Rightarrow>
          if py_all ge then
            (case compare1d (\<lambda>x u. x \<le> u) q (upper idx) of
               Inl e \<Rightarrow> Inl e
             | Inr le \<Rightarrow> Inr (py_all le))
          else Inr False)"

text \<open>
  \<^verbatim>\<open>self.embeddings[result.indices]\<close>: integer-array indexing along axis 0.  A negative
  index counts from the end; an index outside \<open>[-n, n)\<close> raises \<open>IndexError\<close>.
\<close>

definition take_row :: "'a list list \<Rightarrow> int \<Rightarrow> error + 'a list" where
  "take_row rows i =
     (let n = int (length rows) in
      if 0 \<le> i \<and> i < n then Inr (rows ! nat i)
      else if - n \<le> i \<and> i < 0 then Inr (rows ! nat (n + i))
      else Inl (IndexError (''index '' @ str_int i @ '' is out of bounds for axis 0 with size ''
                              @ str_int n)))"

fun gather :: "'a list list \<Rightarrow> int list \<Rightarrow> error + 'a list list" where
  "gather rows [] = Inr []"
| "gather rows (i # is) =
     (case take_row rows i of
        Inl e \<Rightarrow> Inl e
      | Inr r \<Rightarrow> (case gather rows is of Inl e \<Rightarrow> Inl e | Inr rs \<Rightarrow> Inr (r # rs)))"

text \<open>The four validation errors of \<open>search\<close>.\<close>

definition shape_error :: "nat \<Rightarrow> error" where
  "shape_error nd = ValueError
     (''Expected query to be a 1D vector, got a vector of dim '' @ str_nat nd @ ''.'')"

definition dimension_error :: "int \<Rightarrow> nat \<Rightarrow> error" where
  "dimension_error d dim = ValueError
     (''Expected query to have dimension '' @ str_int d @ '', got '' @ str_nat dim)"

definition bounds_error :: error where
  "bounds_error = ValueError
     ''Query is out of bounds. Call index.lower and index.upper for the boundary.''"

definition k_error :: "int \<Rightarrow> error" where
  "k_error k = ValueError (''Expected k to be at least 1, got '' @ str_int k)"

text \<open>
  \<open>search\<close> returns the calls it made to \<open>_search\<close>, in order, together with its result
  or the exception it raised.
\<close>

datatype 'a call = SearchCall "'a ndarray" int

definition wrap_result ::
  "'a index \<Rightarrow> 'a ndarray \<Rightarrow> 'a internal_search_result \<Rightarrow> error + 'a search_result" where
  "wrap_result idx q r =
     (case gather (embeddings idx) (indices r) of
        Inl e \<Rightarrow> Inl e
      | Inr vs \<Rightarrow> Inr \<lparr>distances = distances r, indices = indices r, query = q, vectors = vs\<rparr>)"

definition search ::
  "('a::linorder) index \<Rightarrow> 'a ndarray \<Rightarrow> int \<Rightarrow> 'a call list \<times> (error + 'a search_result)" where
  "search idx q k =
     (if ndim q \<noteq> 1 then ([], Inl (shape_error (ndim q)))
      else if int (hd (shape q)) \<noteq> dims idx then ([], Inl (dimension_error (dims idx) (hd (shape q))))
      else
        (case in_range idx (data q) of
           Inl e \<Rightarrow> ([], Inl e)
         | Inr ok \<Rightarrow>
             if \<not> ok then ([], Inl bounds_error)
             else if k < 1 then ([], Inl (k_error k))
             else
               ([SearchCall q k],
                (case priv_search idx q k of
                   Inl e \<Rightarrow> Inl e
                 | Inr result \<Rightarrow> wrap_result idx q result))))"

text \<open>A 1-dimensional array built from a list of scalars, as \<^verbatim>\<open>np.array([...])\<close> does.\<close>

definition np_array :: "'a list \<Rightarrow> 'a ndarray" where
  "np_array xs = \<lparr>shape = [length xs], data = xs\<rparr>"

section \<open>The embedder protocol\<close>

text \<open>
  An embedder: the abstract properties \<open>batch\<close> and \<open>dims\<close> (here \<open>embedder_dims\<close>) and
  the abstract method \<open>_encode\<close>, here \<open>priv_encode\<close>, which may raise.
\<close>

record 'a embedder =
  batch :: int
  embedder_dims :: int
  priv_encode :: "string list \<Rightarrow> error + 'a ndarray"

definition encode_error :: "int \<Rightarrow> nat \<Rightarrow> error" where
  "encode_error d dim = ValueError
     (''Expected the encoded embeddings to have dimension '' @ str_int d @ '', got ''
        @ str_nat dim)"

text \<open>
  \<^verbatim>\<open>encoded.shape[-1]\<close> reads the last entry of the shape tuple; on the empty tuple of
  a 0-dimensional array the subscript raises \<open>IndexError\<close>.
\<close>

definition encode :: "'a embedder \<Rightarrow> string list \<Rightarrow> error + 'a ndarray" where
  "encode emb text =
     (case priv_encode emb text of
        Inl e \<Rightarrow> Inl e
      | Inr encoded \<Rightarrow>
          if shape encoded = [] then Inl (IndexError ''tuple index out of range'')
          else if int (last (shape encoded)) \<noteq> embedder_dims emb
            then Inl (encode_error (embedder_dims emb) (last (shape encoded)))
          else Inr encoded)"

section \<open>The optimizer\<close>

text \<open>A generation step of the external strategy: its model and its number of trials.\<close>

record generation_step =
  model :: string
  num_trials :: int

text \<open>Python's builtin \<open>sum\<close>: a left-to-right accumulation from 0.\<close>

definition py_sum :: "int list \<Rightarrow> int" where
  "py_sum xs = fold (\<lambda>x acc. acc + x) xs 0"

definition terminate_step :: "generation_step list \<Rightarrow> int" where
  "terminate_step steps =
     (let trials = map num_trials steps in
      if py_all (map (\<lambda>t. 0 \<le> t) trials) then py_sum trials else - 1)"

text \<open>
  Modelled from the spec: the class \<open>RemainingSteps\<close> of \<^verbatim>\<open>bocoel.core.optim.utils\<close>,
  which is not among the sources.  Its state is one integer, \<open>-1\<close> meaning "never
  terminate".  \<open>step\<close> fails if the count is 0; otherwise it decrements the count by 1
  unless the count is the unbounded sentinel, in which case it is a no-op.  \<open>done\<close> is
  true iff the count is 0.
\<close>

definition remaining_step :: "int \<Rightarrow> error + int" where
  "remaining_step count =
     (if count = 0 then Inl TerminationViolation
      else if count = - 1 then Inr count
      else Inr (count - 1))"


text \<open>
  Modelled from the spec: the record \<open>State\<close> of \<^verbatim>\<open>bocoel.core.optim.interfaces\<close>,
  which is not among the sources: the query, the search result and the scalar evaluation
  of one trial.
\<close>

record 'a state =
  state_query :: "'a ndarray"
  state_result :: "'a search_result"
  evaluation :: 'a

text \<open>
  Modelled from the spec: the function \<open>evaluate_index\<close> of \<^verbatim>\<open>bocoel.core.optim.utils\<close>,
  which is not among the sources.  It calls the index's \<open>search\<close> with the query, applies
  the scoring function to the search result and returns the state record; a failure of
  either is propagated uncaught.
\<close>

definition evaluate_index ::
  "'a ndarray \<Rightarrow> ('a::linorder) index \<Rightarrow> ('a search_result \<Rightarrow> error + 'a) \<Rightarrow> error + 'a state" where
  "evaluate_index q idx fn =
     (case snd (search idx q 1) of
        Inl e \<Rightarrow> Inl e
      | Inr result \<Rightarrow>
          (case fn result of
             Inl e \<Rightarrow> Inl e
           | Inr v \<Rightarrow> Inr \<lparr>state_query = q, state_result = result, evaluation = v\<rparr>))"

text \<open>
  The collaborators the optimizer only calls: the external client's \<open>get_next_trial\<close> and
  \<open>complete_trial\<close>, which act on the client's state \<open>'s\<close> and may raise, and the list of
  parameter names for a number of dimensions.
\<close>

record ('s, 'a) externals =
  get_next_trial :: "'s \<Rightarrow> (error + ((string \<rightharpoonup> 'a) \<times> nat)) \<times> 's"
  complete_trial :: "nat \<Rightarrow> string \<times> 'a \<Rightarrow> 's \<Rightarrow> (error + unit) \<times> 's"
  parameter_name_list :: "int \<Rightarrow> string list"

record ('s, 'a) optimizer =
  ax_client :: 's
  remaining_steps :: int
  opt_index :: "'a index"
  evaluate_fn :: "'a search_result \<Rightarrow> error + 'a"

definition KEY :: string where
  "KEY = ''entropy''"



text \<open>\<^verbatim>\<open>[parameters[name] for name in names]\<close>: a missing name raises \<open>KeyError\<close>.\<close>

fun lookup_names :: "(string \<rightharpoonup> 'a) \<Rightarrow> string list \<Rightarrow> error + 'a list" where
  "lookup_names parameters [] = Inr []"
| "lookup_names parameters (name # names) =
     (case parameters name of
        None \<Rightarrow> Inl (KeyError name)
      | Some v \<Rightarrow>
          (case lookup_names parameters names of Inl e \<Rightarrow> Inl e | Inr vs \<Rightarrow> Inr (v # vs)))"

definition evaluate ::
  "('s, 'a) externals \<Rightarrow> ('s, 'a::linorder) optimizer \<Rightarrow> (string \<rightharpoonup> 'a) \<Rightarrow> error + 'a state" where
  "evaluate ext opt parameters =
     (let index_dims = dims (opt_index opt);
          names = parameter_name_list ext index_dims
      in case lookup_names parameters names of
           Inl e \<Rightarrow> Inl e
         | Inr xs \<Rightarrow> evaluate_index (np_array xs) (opt_index opt) (evaluate_fn opt))"

text \<open>
  \<open>step\<close> returns the calls it made to the external client, in order, its result or the
  exception it raised, and the optimizer as the call leaves it.
\<close>

datatype 'a ax_call = GetNextTrial | CompleteTrial nat string 'a

definition step ::
  "('s, 'a) externals \<Rightarrow> ('s, 'a::linorder) optimizer
     \<Rightarrow> 'a ax_call list \<times> (error + 'a state) \<times> ('s, 'a) optimizer" where
  "step ext opt =
     (case remaining_step (remaining_steps opt) of
        Inl e \<Rightarrow> ([], Inl e, opt)
      | Inr c \<Rightarrow>
          (let opt1 = opt\<lparr>remaining_steps := c\<rparr> in
           case get_next_trial ext (ax_client opt1) of
             (Inl e, s1) \<Rightarrow> ([GetNextTrial], Inl e, opt1\<lparr>ax_client := s1\<rparr>)
           | (Inr (parameters, trial_index), s1) \<Rightarrow>
               (case evaluate ext opt1 parameters of
                  Inl e \<Rightarrow> ([GetNextTrial], Inl e, opt1\<lparr>ax_client := s1\<rparr>)
                | Inr st \<Rightarrow>
                    (case complete_trial ext trial_index (KEY, evaluation st) s1 of
                       (Inl e, s2) \<Rightarrow>
                         ([GetNextTrial, CompleteTrial trial_index KEY (evaluation st)], Inl e,
                          opt1\<lparr>ax_client := s2\<rparr>)
                     | (Inr u, s2) \<Rightarrow>
                         ([GetNextTrial, CompleteTrial trial_index KEY (evaluation st)], Inr st,
                          opt1\<lparr>ax_client := s2\<rparr>)))))"


subsection \<open>Rendering\<close>

text \<open>
  The visualization routines are external; \<open>render\<close> returns the routines it invoked
  together with the result of the call.
\<close>

datatype render_fn =
    RenderInteractive
  | RenderStatic
  | RenderTradeoff
  | RenderCrossValidate
  | RenderSlice
  | RenderTile

definition render ::
  "(render_fn \<Rightarrow> 'kw \<Rightarrow> error + unit) \<Rightarrow> string \<Rightarrow> 'kw \<Rightarrow> render_fn list \<times> (error + unit)" where
  "render routines kind kwargs =
     (if kind = ''interactive'' then ([RenderInteractive], routines RenderInteractive kwargs)
      else if kind = ''static'' then ([RenderStatic], routines RenderStatic kwargs)
      else if kind = ''tradeoff'' then ([RenderTradeoff], routines RenderTradeoff kwargs)
      else if kind = ''cross_validate'' \<or> kind = ''cv''
        then ([RenderCrossValidate], routines RenderCrossValidate kwargs)
      else if kind = ''slice'' then ([RenderSlice], routines RenderSlice kwargs)
      else if kind = ''tile'' then ([RenderTile], routines RenderTile kwargs)
      else ([], Inl (ValueError ''Not supported'')))"

section \<open>Concrete instances\<close>

text \<open>
  The index of the end-to-end scenarios: four points at the corners of the unit square,
  bounds \<open>[[0,1],[0,1]]\<close>, and a metric-specific routine that answers with row 3.
\<close>

definition unit_square :: "int index" where
  "unit_square =
     \<lparr>dims = 2, bounds = [(0, 1), (0, 1)],
      embeddings = [[0, 0], [1, 0], [0, 1], [1, 1]],
      priv_search = (\<lambda>q k. Inr \<lparr>distances = [0], indices = [3]\<rparr>)\<rparr>"

text \<open>
  An external client whose state counts the trials proposed and completed; it always
  proposes the point \<open>(1, 1)\<close>.
\<close>

definition counting_client :: "(nat \<times> nat, int) externals" where
  "counting_client =
     \<lparr>get_next_trial = (\<lambda>s. (Inr ([''x0'' \<mapsto> 1, ''x1'' \<mapsto> 1], fst s), (Suc (fst s), snd s))),
      complete_trial = (\<lambda>i raw s. (Inr (), (fst s, Suc (snd s)))),
      parameter_name_list = (\<lambda>d. [''x0'', ''x1''])\<rparr>"


definition failing_score :: "int search_result \<Rightarrow> error + int" where
  "failing_score r = Inl (Exception ''scoring failed'')"

text \<open>Visualization routines that return normally.\<close>

definition silent_routines :: "render_fn \<Rightarrow> unit \<Rightarrow> error + unit" where
  "silent_routines f kwargs = Inr ()"

text \<open>
  An embedder that declares 2 dimensions and whose \<open>_encode\<close> answers with an array of
  zeros of the given shape.
\<close>

definition zeros_embedder :: "nat list \<Rightarrow> int embedder" where
  "zeros_embedder shp =
     \<lparr>batch = 64, embedder_dims = 2,
      priv_encode = (\<lambda>texts. Inr \<lparr>shape = shp, data = replicate (prod_list shp) 0\<rparr>)\<rparr>"

section \<open>Validation in \<open>search\<close>\<close>

lemma py_all_iff: "py_all bs = (\<forall>b \<in> set bs. b)"
  by (induction bs) auto

lemma py_all_map2:
  "length xs = length ys \<Longrightarrow> py_all (map2 p xs ys) = (\<forall>i < length xs. p (xs ! i) (ys ! i))"
  by (auto simp: py_all_iff set_zip in_set_conv_nth)

lemma in_range_same_length:
  fixes idx :: "('a::linorder) index"
  assumes "length q = length (bounds idx)"
  shows "in_range idx q =
           Inr (\<forall>i < length q. lower idx ! i \<le> q ! i \<and> q ! i \<le> upper idx ! i)"
  using assms by (auto simp: in_range_def compare1d_def lower_def upper_def py_all_map2)

lemma validation_errors_distinct:
  "shape_error n \<noteq> dimension_error d m" "shape_error n \<noteq> bounds_error"
  "shape_error n \<noteq> k_error k" "dimension_error d m \<noteq> bounds_error"
  "dimension_error d m \<noteq> k_error k" "bounds_error \<noteq> k_error k"
  by (simp_all add: shape_error_def dimension_error_def bounds_error_def k_error_def)

lemma valid_1d_length:
  "valid_ndarray q \<Longrightarrow> ndim q = 1 \<Longrightarrow> length (data q) = hd (shape q)"
  by (cases "shape q") (auto simp: valid_ndarray_def ndim_def)

lemma search_checked:
  fixes idx :: "('a::linorder) index"
  assumes "valid_index idx" and "valid_ndarray q"
  shows "search idx q k =
     (if ndim q \<noteq> 1 then ([], Inl (shape_error (ndim q)))
      else if int (hd (shape q)) \<noteq> dims idx
        then ([], Inl (dimension_error (dims idx) (hd (shape q))))
      else if \<not> (\<forall>i < hd (shape q). lower idx ! i \<le> data q ! i \<and> data q ! i \<le> upper idx ! i)
        then ([], Inl bounds_error)
      else if k < 1 then ([], Inl (k_error k))
      else ([SearchCall q k],
            (case priv_search idx q k of Inl e \<Rightarrow> Inl e | Inr r \<Rightarrow> wrap_result idx q r)))"
proof (cases "ndim q = 1 \<and> int (hd (shape q)) = dims idx")
  case False
  then show ?thesis by (auto simp: search_def)
next
  case True
  with assms have len: "length (data q) = length (bounds idx)"
    by (simp add: valid_1d_length valid_index_def)
  have hd: "hd (shape q) = length (data q)"
    using assms True by (simp add: valid_1d_length)
  show ?thesis
    using True by (simp add: search_def in_range_same_length [OF len] hd)
qed

text \<open>
  Claim C1.  On a valid index and a well-formed query, \<open>search\<close> validates in a fixed
  order: a query that is not 1-dimensional raises the shape error; otherwise a length
  different from \<open>dims\<close> raises the dimension error; otherwise a coordinate outside
  \<open>[lower, upper]\<close> (inclusive) raises the bounds error; otherwise \<open>k < 1\<close> raises the
  error about \<open>k\<close>.  So the error raised is that of the earliest failing check, and
  \<open>_search\<close> is called (once, with the query and \<open>k\<close>) only if all four checks pass.
\<close>

theorem search_validation_order:
  fixes idx :: "('a::linorder) index"
  assumes "valid_index idx" and "valid_ndarray q"
  shows "(ndim q \<noteq> 1 \<longrightarrow> search idx q k = ([], Inl (shape_error (ndim q))))
    \<and> (ndim q = 1 \<and> int (hd (shape q)) \<noteq> dims idx \<longrightarrow>
         search idx q k = ([], Inl (dimension_error (dims idx) (hd (shape q)))))
    \<and> (ndim q = 1 \<and> int (hd (shape q)) = dims idx
         \<and> \<not> (\<forall>i < hd (shape q). lower idx ! i \<le> data q ! i \<and> data q ! i \<le> upper idx ! i) \<longrightarrow>
         search idx q k = ([], Inl bounds_error))
    \<and> (ndim q = 1 \<and> int (hd (shape q)) = dims idx
         \<and> (\<forall>i < hd (shape q). lower idx ! i \<le> data q ! i \<and> data q ! i \<le> upper idx ! i)
         \<and> k < 1 \<longrightarrow>
         search idx q k = ([], Inl (k_error k)))
    \<and> (fst (search idx q k) = (if ndim q = 1 \<and> int (hd (shape q)) = dims idx
         \<and> (\<forall>i < hd (shape q). lower idx ! i \<le> data q ! i \<and> data q ! i \<le> upper idx ! i)
         \<and> 1 \<le> k then [SearchCall q k] else []))"
  by (simp add: search_checked [OF assms])

theorem search_validation_order_witness:
  "search unit_square \<lparr>shape = [2, 1], data = [2, 2]\<rparr> 0 = ([], Inl (ValueError ''Expected query to be a 1D vector, got a vector of dim 2.''))
   \<and> search unit_square \<lparr>shape = [3], data = [2, 2, 2]\<rparr> 0
       = ([], Inl (ValueError ''Expected query to have dimension 2, got 3''))
   \<and> search unit_square \<lparr>shape = [2], data = [2, 2]\<rparr> 0 = ([], Inl (ValueError
           ''Query is out of bounds. Call index.lower and index.upper for the boundary.''))
   \<and> search unit_square \<lparr>shape = [2], data = [1, 0]\<rparr> 0
       = ([], Inl (ValueError ''Expected k to be at least 1, got 0''))
   \<and> fst (search unit_square \<lparr>shape = [2], data = [1, 0]\<rparr> 1)
       = [SearchCall \<lparr>shape = [2], data = [1, 0]\<rparr> 1]"
proof -
  have v: "valid_index unit_square"
    by (simp add: valid_index_def unit_square_def)
  have w: "valid_ndarray \<lparr>shape = [2, 1], data = [2, 2::int]\<rparr>"
    "valid_ndarray \<lparr>shape = [3], data = [2, 2, 2::int]\<rparr>"
    "valid_ndarray \<lparr>shape = [2], data = [2, 2::int]\<rparr>"
    "valid_ndarray \<lparr>shape = [2], data = [1, 0::int]\<rparr>"
    by (simp_all add: valid_ndarray_def)
  have b: "lower unit_square = [0, 0]" "upper unit_square = [1, 1]" "dims unit_square = 2"
    by (simp_all add: lower_def upper_def unit_square_def)
  have two: "\<And>P. (\<forall>i < (2::nat). P i) = (P 0 \<and> P 1)"
    by (auto simp: less_Suc_eq numeral_2_eq_2)
  show ?thesis
    using search_validation_order [OF v w(1), of 0]
      search_validation_order [OF v w(2), of 0]
      search_validation_order [OF v w(3), of 0]
      search_validation_order [OF v w(4), of 0]
      search_validation_order [OF v w(4), of 1]
    by (simp add: ndim_def b two shape_error_def dimension_error_def bounds_error_def
        k_error_def str_int_def str_nat.simps digit_char_def)
qed

lemma unit_square_fields:
  "lower unit_square = [0, 0]" "upper unit_square = [1, 1]" "dims unit_square = 2"
  "embeddings unit_square = [[0, 0], [1, 0], [0, 1], [1, 1]]"
  "priv_search unit_square q k = Inr \<lparr>distances = [0], indices = [3]\<rparr>"
  "valid_index unit_square"
  by (simp_all add: lower_def upper_def unit_square_def valid_index_def)

lemma all_less_two:
  "(\<forall>i < (2::nat). P i) = (P 0 \<and> P 1)"
  "(\<forall>i < Suc (Suc 0). P i) = (P 0 \<and> P 1)"
  "(\<exists>i < Suc (Suc 0). P i) = (P 0 \<or> P 1)"
  by (auto simp: less_Suc_eq numeral_2_eq_2)

text \<open>
  Claim C4.  On a valid index, a well-formed 1-dimensional query of length \<open>dims\<close> with
  a coordinate below its lower or above its upper bound makes \<open>search\<close> raise the bounds
  error, whose message names \<open>index.lower\<close> and \<open>index.upper\<close>, for every \<open>k\<close>; the
  list of calls to \<open>_search\<close> is empty.
\<close>

theorem search_out_of_bounds:
  fixes idx :: "('a::linorder) index"
  assumes "valid_index idx" and "valid_ndarray q"
    and "ndim q = 1" and "int (hd (shape q)) = dims idx"
    and "i < hd (shape q)"
    and "data q ! i < lower idx ! i \<or> upper idx ! i < data q ! i"
  shows "search idx q k =
           ([], Inl (ValueError
              ''Query is out of bounds. Call index.lower and index.upper for the boundary.''))"
proof -
  have "\<not> (\<forall>j < hd (shape q). lower idx ! j \<le> data q ! j \<and> data q ! j \<le> upper idx ! j)"
    using assms(5,6) by (auto simp: not_le)
  then show ?thesis
    using assms(3,4) by (simp add: search_checked [OF assms(1,2)] bounds_error_def)
qed

theorem search_out_of_bounds_witness:
  "search unit_square \<lparr>shape = [2], data = [2, 2]\<rparr> 1 =
     ([], Inl (ValueError
        ''Query is out of bounds. Call index.lower and index.upper for the boundary.''))"
proof -
  have v: "valid_ndarray \<lparr>shape = [2], data = [2, 2::int]\<rparr>"
    by (simp add: valid_ndarray_def)
  show ?thesis
    using search_out_of_bounds [OF unit_square_fields(6) v, of 0 1]
    by (simp add: ndim_def unit_square_fields)
qed

text \<open>
  Claim C5 as stated fails: with \<open>k = 0\<close> and a 2-dimensional query the error raised is
  the shape error, not the error about \<open>k\<close>.
\<close>

theorem k_check_first_counterexample:
  "search unit_square \<lparr>shape = [2, 1], data = [2, 2]\<rparr> 0
     = ([], Inl (ValueError ''Expected query to be a 1D vector, got a vector of dim 2.''))
   \<and> search unit_square \<lparr>shape = [2, 1], data = [2, 2]\<rparr> 0
     \<noteq> ([], Inl (ValueError ''Expected k to be at least 1, got 0''))"
  by (simp add: search_def ndim_def shape_error_def str_nat.simps digit_char_def)

text \<open>
  Claim C5, amended.  For every \<open>k < 1\<close>, on a valid index and a well-formed query,
  \<open>search\<close> fails and never calls \<open>_search\<close>.  The checks keep their order: a query
  that is not 1-dimensional raises the shape error; otherwise a length different from
  \<open>dims\<close> raises the dimension error; otherwise a coordinate outside its bounds raises
  the bounds error; and the error about \<open>k\<close> is raised exactly when the query passes
  these three checks.
\<close>

theorem search_k_error:
  fixes idx :: "('a::linorder) index"
  assumes "valid_index idx" and "valid_ndarray q" and "k < 1"
  shows "fst (search idx q k) = []
    \<and> (\<exists>e. snd (search idx q k) = Inl e)
    \<and> (ndim q \<noteq> 1 \<longrightarrow> search idx q k = ([], Inl (shape_error (ndim q))))
    \<and> (ndim q = 1 \<and> int (hd (shape q)) \<noteq> dims idx \<longrightarrow>
         search idx q k = ([], Inl (dimension_error (dims idx) (hd (shape q)))))
    \<and> (ndim q = 1 \<and> int (hd (shape q)) = dims idx
         \<and> \<not> (\<forall>i < hd (shape q). lower idx ! i \<le> data q ! i \<and> data q ! i \<le> upper idx ! i) \<longrightarrow>
         search idx q k = ([], Inl bounds_error))
    \<and> (search idx q k = ([], Inl (k_error k)) \<longleftrightarrow>
         ndim q = 1 \<and> int (hd (shape q)) = dims idx
         \<and> (\<forall>i < hd (shape q). lower idx ! i \<le> data q ! i \<and> data q ! i \<le> upper idx ! i))"
  using assms(3)
  by (simp add: search_checked [OF assms(1,2)] validation_errors_distinct)

theorem search_k_error_witness:
  "search unit_square \<lparr>shape = [2], data = [1, 0]\<rparr> 0
       = ([], Inl (ValueError ''Expected k to be at least 1, got 0''))
   \<and> search unit_square \<lparr>shape = [2], data = [1, 0]\<rparr> (- 3)
       = ([], Inl (ValueError ''Expected k to be at least 1, got -3''))
   \<and> search unit_square \<lparr>shape = [2, 1], data = [2, 2]\<rparr> 0
       = ([], Inl (ValueError ''Expected query to be a 1D vector, got a vector of dim 2.''))
   \<and> search unit_square \<lparr>shape = [3], data = [2, 2, 2]\<rparr> 0
       = ([], Inl (ValueError ''Expected query to have dimension 2, got 3''))
   \<and> search unit_square \<lparr>shape = [2], data = [2, 2]\<rparr> (- 3)
       = ([], Inl (ValueError
           ''Query is out of bounds. Call index.lower and index.upper for the boundary.''))"
proof -
  have v: "valid_ndarray \<lparr>shape = [2], data = [1, 0::int]\<rparr>"
    "valid_ndarray \<lparr>shape = [2, 1], data = [2, 2::int]\<rparr>"
    "valid_ndarray \<lparr>shape = [3], data = [2, 2, 2::int]\<rparr>"
    "valid_ndarray \<lparr>shape = [2], data = [2, 2::int]\<rparr>"
    by (simp_all add: valid_ndarray_def)
  show ?thesis
    using search_k_error [OF unit_square_fields(6) v(1), of 0]
      search_k_error [OF unit_square_fields(6) v(1), of "- 3"]
      search_k_error [OF unit_square_fields(6) v(2), of 0]
      search_k_error [OF unit_square_fields(6) v(3), of 0]
      search_k_error [OF unit_square_fields(6) v(4), of "- 3"]
    by (simp add: ndim_def unit_square_fields all_less_two shape_error_def
        dimension_error_def bounds_error_def k_error_def str_int_def str_nat.simps
        digit_char_def)
qed

lemma valid_np_array: "valid_ndarray (np_array xs)"
  by (simp add: valid_ndarray_def np_array_def)

lemma np_array_fields:
  "ndim (np_array xs) = 1" "shape (np_array xs) = [length xs]" "data (np_array xs) = xs"
  by (simp_all add: ndim_def np_array_def)

text \<open>
  Claim C8.  On a valid index and the elements of a 1-dimensional query of length
  \<open>dims\<close>, \<open>in_range\<close> returns true iff every coordinate lies between its lower and its
  upper bound, both inclusive.  A query equal to the upper bound (where the lower bounds
  do not exceed the upper ones) is in range and, for \<open>k \<ge> 1\<close>, \<open>search\<close> passes
  validation and returns what the metric-specific routine and the gather yield; a query
  with a coordinate outside a bound is not in range and \<open>search\<close> raises the bounds
  error.
\<close>

theorem in_range_inclusive:
  fixes idx :: "('a::linorder) index"
  assumes "valid_index idx" and "int (length q) = dims idx"
  shows "in_range idx q = Inr (\<forall>i < length q. lower idx ! i \<le> q ! i \<and> q ! i \<le> upper idx ! i)
    \<and> ((\<forall>i < length q. lower idx ! i \<le> upper idx ! i) \<and> q = upper idx \<longrightarrow>
         in_range idx q = Inr True
         \<and> (1 \<le> k \<longrightarrow>
              search idx (np_array q) k =
                ([SearchCall (np_array q) k],
                 (case priv_search idx (np_array q) k of
                    Inl e \<Rightarrow> Inl e
                  | Inr r \<Rightarrow> wrap_result idx (np_array q) r))))
    \<and> ((\<exists>i < length q. q ! i < lower idx ! i \<or> upper idx ! i < q ! i) \<longrightarrow>
         in_range idx q = Inr False \<and> search idx (np_array q) k = ([], Inl bounds_error))"
proof -
  let ?P = "\<forall>i < length q. lower idx ! i \<le> q ! i \<and> q ! i \<le> upper idx ! i"
  have len: "length q = length (bounds idx)"
    using assms by (simp add: valid_index_def)
  have r: "in_range idx q = Inr ?P"
    by (rule in_range_same_length [OF len])
  have s: "search idx (np_array q) k =
      (if \<not> ?P then ([], Inl bounds_error)
       else if k < 1 then ([], Inl (k_error k))
       else ([SearchCall (np_array q) k],
             (case priv_search idx (np_array q) k of
                Inl e \<Rightarrow> Inl e
              | Inr r \<Rightarrow> wrap_result idx (np_array q) r)))"
    using assms(2)
    by (simp add: search_checked [OF assms(1) valid_np_array] np_array_fields)
  have up: "?P" if "\<forall>i < length q. lower idx ! i \<le> upper idx ! i" and "q = upper idx"
    using that by simp
  have out: "\<not> ?P" if "\<exists>i < length q. q ! i < lower idx ! i \<or> upper idx ! i < q ! i"
    using that by (auto simp: not_le)
  have c2: "in_range idx q = Inr True
      \<and> (1 \<le> k \<longrightarrow>
           search idx (np_array q) k =
             ([SearchCall (np_array q) k],
              (case priv_search idx (np_array q) k of
                 Inl e \<Rightarrow> Inl e
               | Inr r \<Rightarrow> wrap_result idx (np_array q) r)))"
    if "(\<forall>i < length q. lower idx ! i \<le> upper idx ! i) \<and> q = upper idx"
  proof -
    have "?P" using that up by blast
    then show ?thesis by (simp add: r s)
  qed
  have c3: "in_range idx q = Inr False \<and> search idx (np_array q) k = ([], Inl bounds_error)"
    if "\<exists>i < length q. q ! i < lower idx ! i \<or> upper idx ! i < q ! i"
  proof -
    have "\<not> ?P" using that out by blast
    then show ?thesis by (simp add: r s)
  qed
  show ?thesis
    using r c2 c3 by blast
qed

theorem in_range_inclusive_witness:
  "in_range unit_square [1, 1] = Inr True
   \<and> search unit_square (np_array [1, 1]) 1 =
       ([SearchCall (np_array [1, 1]) 1],
        Inr \<lparr>distances = [0], indices = [3], query = np_array [1, 1], vectors = [[1, 1]]\<rparr>)
   \<and> in_range unit_square [2, 2] = Inr False
   \<and> search unit_square (np_array [2, 2]) 1 =
       ([], Inl (ValueError
          ''Query is out of bounds. Call index.lower and index.upper for the boundary.''))"
proof -
  have w: "wrap_result unit_square q \<lparr>distances = [0], indices = [3]\<rparr>
      = Inr \<lparr>distances = [0], indices = [3], query = q, vectors = [[1, 1]]\<rparr>" for q
    by (simp add: wrap_result_def unit_square_fields take_row_def)
  show ?thesis
    using in_range_inclusive [OF unit_square_fields(6), of "[1, 1]" 1]
      in_range_inclusive [OF unit_square_fields(6), of "[2, 2]" 1]
    by (simp add: unit_square_fields all_less_two bounds_error_def w)
qed

section \<open>The termination budget\<close>

lemma fold_add_sum_list: "fold (\<lambda>x acc. acc + x) xs (a::int) = a + sum_list xs"
  by (induction xs arbitrary: a) auto

lemma py_sum_sum_list: "py_sum xs = sum_list xs"
  by (simp add: py_sum_def fold_add_sum_list)

text \<open>
  Claim C3.  The budget derived from a list of generation steps is the sum of their
  trial counts when every count is non-negative, and \<open>-1\<close> when some count is negative;
  the counts \<open>[5, 10, -1]\<close> give \<open>-1\<close> and \<open>[5, 10, 15]\<close> give \<open>30\<close>.
\<close>

theorem terminate_step_budget:
  "((\<forall>s \<in> set steps. 0 \<le> num_trials s) \<longrightarrow>
      terminate_step steps = sum_list (map num_trials steps))
   \<and> ((\<exists>s \<in> set steps. num_trials s < 0) \<longrightarrow> terminate_step steps = - 1)
   \<and> terminate_step (map (\<lambda>n. \<lparr>model = m, num_trials = n\<rparr>) [5, 10, - 1]) = - 1
   \<and> terminate_step (map (\<lambda>n. \<lparr>model = m, num_trials = n\<rparr>) [5, 10, 15]) = 30"
proof -
  have a: "terminate_step steps = sum_list (map num_trials steps)"
    if "\<forall>s \<in> set steps. 0 \<le> num_trials s"
    using that by (simp add: terminate_step_def py_all_iff py_sum_sum_list)
  have b: "terminate_step steps = - 1" if "\<exists>s \<in> set steps. num_trials s < 0"
    using that by (auto simp: terminate_step_def py_all_iff)
  have c: "terminate_step (map (\<lambda>n. \<lparr>model = m, num_trials = n\<rparr>) [5, 10, - 1]) = - 1"
    by (simp add: terminate_step_def)
  have d: "terminate_step (map (\<lambda>n. \<lparr>model = m, num_trials = n\<rparr>) [5, 10, 15]) = 30"
    by (simp add: terminate_step_def py_sum_def)
  show ?thesis using a b c d by blast
qed

theorem terminate_step_budget_witness:
  "terminate_step [\<lparr>model = ''Sobol'', num_trials = 5\<rparr>, \<lparr>model = ''GPEI'', num_trials = 10\<rparr>,
       \<lparr>model = ''GPEI'', num_trials = 15\<rparr>] = 30
   \<and> terminate_step [\<lparr>model = ''Sobol'', num_trials = 5\<rparr>, \<lparr>model = ''GPEI'', num_trials = 10\<rparr>,
       \<lparr>model = ''GPEI'', num_trials = - 1\<rparr>] = - 1
   \<and> terminate_step [] = 0"
  using terminate_step_budget [of "[\<lparr>model = ''Sobol'', num_trials = 5\<rparr>,
        \<lparr>model = ''GPEI'', num_trials = 10\<rparr>, \<lparr>model = ''GPEI'', num_trials = 15\<rparr>]" "''x''"]
    terminate_step_budget [of "[\<lparr>model = ''Sobol'', num_trials = 5\<rparr>,
        \<lparr>model = ''GPEI'', num_trials = 10\<rparr>, \<lparr>model = ''GPEI'', num_trials = - 1\<rparr>]" "''x''"]
    terminate_step_budget [of "[]" "''x''"]
  by simp

section \<open>Rendering kinds\<close>

text \<open>
  Claim C9 as stated fails: the kind \<open>cv\<close> is none of the six listed names, and \<open>render\<close>
  does not fail on it but invokes the cross-validation routine.
\<close>

theorem render_cv_counterexample:
  "''cv'' \<notin> {''interactive'', ''static'', ''tradeoff'', ''cross_validate'', ''slice'', ''tile''}
   \<and> render silent_routines ''cv'' () = ([RenderCrossValidate], Inr ())"
  by (simp add: render_def silent_routines_def)

text \<open>
  Claim C9, amended.  \<open>render\<close> dispatches over the six kinds and the alias \<open>cv\<close> of
  \<open>cross_validate\<close>: on each of these seven names it invokes exactly one routine, the
  one of that name, and returns its result; on every other kind it raises the
  \<open>ValueError\<close> "Not supported" and invokes no routine.
\<close>

theorem render_dispatch:
  "(kind \<notin> {''interactive'', ''static'', ''tradeoff'', ''cross_validate'', ''cv'', ''slice'',
              ''tile''} \<longrightarrow>
      render routines kind kwargs = ([], Inl (ValueError ''Not supported'')))
   \<and> (kind \<in> {''interactive'', ''static'', ''tradeoff'', ''cross_validate'', ''cv'', ''slice'',
              ''tile''} \<longrightarrow>
      (\<exists>f. render routines kind kwargs = ([f], routines f kwargs)))
   \<and> render routines ''interactive'' kwargs = ([RenderInteractive], routines RenderInteractive kwargs)
   \<and> render routines ''static'' kwargs = ([RenderStatic], routines RenderStatic kwargs)
   \<and> render routines ''tradeoff'' kwargs = ([RenderTradeoff], routines RenderTradeoff kwargs)
   \<and> render routines ''cross_validate'' kwargs
       = ([RenderCrossValidate], routines RenderCrossValidate kwargs)
   \<and> render routines ''cv'' kwargs = ([RenderCrossValidate], routines RenderCrossValidate kwargs)
   \<and> render routines ''slice'' kwargs = ([RenderSlice], routines RenderSlice kwargs)
   \<and> render routines ''tile'' kwargs = ([RenderTile], routines RenderTile kwargs)"
  by (simp add: render_def)

theorem render_dispatch_witness:
  "render silent_routines ''plot'' () = ([], Inl (ValueError ''Not supported''))
   \<and> render silent_routines ''Tile'' () = ([], Inl (ValueError ''Not supported''))
   \<and> (\<exists>f. render silent_routines ''tile'' () = ([f], silent_routines f ()))"
  using render_dispatch [of "''plot''" silent_routines "()"]
    render_dispatch [of "''Tile''" silent_routines "()"]
    render_dispatch [of "''tile''" silent_routines "()"]
  by simp

section \<open>The check in \<open>encode\<close>\<close>

text \<open>
  Claim C10 as stated fails: when \<open>_encode\<close> returns a 0-dimensional array, which has no
  last axis, \<open>encode\<close> neither returns the array nor raises a \<open>ValueError\<close>: reading the
  last entry of the empty shape raises \<open>IndexError\<close>.
\<close>

theorem encode_scalar_counterexample:
  "encode (zeros_embedder []) [''a''] = Inl (IndexError ''tuple index out of range'')"
  by (simp add: encode_def zeros_embedder_def)

text \<open>
  Claim C10, amended.  When \<open>_encode\<close> returns an array of rank at least 1, \<open>encode\<close>
  returns that array unchanged if its last dimension equals the declared \<open>dims\<close>, and
  otherwise raises a \<open>ValueError\<close> whose message names the expected and the actual
  dimension.  Only the last axis is read, so the rank (1, 2, 3, ...) does not matter.
  When \<open>_encode\<close> returns a 0-dimensional array, reading the last entry of its empty
  shape raises \<open>IndexError\<close>.
\<close>

theorem encode_checks_last_axis:
  assumes "priv_encode emb text = Inr encoded"
  shows "(shape encoded \<noteq> [] \<and> int (last (shape encoded)) = embedder_dims emb \<longrightarrow>
           encode emb text = Inr encoded)
    \<and> (shape encoded \<noteq> [] \<and> int (last (shape encoded)) \<noteq> embedder_dims emb \<longrightarrow>
         encode emb text = Inl (ValueError
           (''Expected the encoded embeddings to have dimension '' @ str_int (embedder_dims emb)
              @ '', got '' @ str_nat (last (shape encoded)))))
    \<and> (shape encoded = [] \<longrightarrow>
         encode emb text = Inl (IndexError ''tuple index out of range''))"
  using assms by (simp add: encode_def encode_error_def)

theorem encode_checks_last_axis_witness:
  "encode (zeros_embedder [3, 2]) [''a'', ''b'', ''c'']
       = Inr \<lparr>shape = [3, 2], data = [0, 0, 0, 0, 0, 0]\<rparr>
   \<and> encode (zeros_embedder [5, 1, 2]) [''a''] = Inr \<lparr>shape = [5, 1, 2], data = replicate 10 0\<rparr>
   \<and> encode (zeros_embedder [2]) [''a''] = Inr \<lparr>shape = [2], data = [0, 0]\<rparr>
   \<and> encode (zeros_embedder [2, 3]) [''a'', ''b'']
       = Inl (ValueError ''Expected the encoded embeddings to have dimension 2, got 3'')
   \<and> encode (zeros_embedder []) [''a''] = Inl (IndexError ''tuple index out of range'')"
proof -
  have p: "priv_encode (zeros_embedder shp) t = Inr \<lparr>shape = shp, data = replicate (prod_list shp) 0\<rparr>"
    for shp t
    by (simp add: zeros_embedder_def)
  have d: "embedder_dims (zeros_embedder shp) = 2" for shp
    by (simp add: zeros_embedder_def)
  show ?thesis
    using encode_checks_last_axis [OF p [of "[3, 2]" "[''a'', ''b'', ''c'']"]]
      encode_checks_last_axis [OF p [of "[5, 1, 2]" "[''a'']"]]
      encode_checks_last_axis [OF p [of "[2]" "[''a'']"]]
      encode_checks_last_axis [OF p [of "[2, 3]" "[''a'', ''b'']"]]
      encode_checks_last_axis [OF p [of "[]" "[''a'']"]]
    by (simp add: d str_int_def str_nat.simps digit_char_def eval_nat_numeral)
qed

section \<open>The result of \<open>search\<close>\<close>

lemma take_row_Inr:
  "take_row rows i = Inr r \<longleftrightarrow>
     - int (length rows) \<le> i \<and> i < int (length rows)
     \<and> r = rows ! nat (if 0 \<le> i then i else int (length rows) + i)"
  by (auto simp: take_row_def Let_def)

lemma gather_Inr:
  "gather rows js = Inr vs \<longleftrightarrow>
     (\<forall>i \<in> set js. - int (length rows) \<le> i \<and> i < int (length rows))
     \<and> vs = map (\<lambda>i. rows ! nat (if 0 \<le> i then i else int (length rows) + i)) js"
proof (induction js arbitrary: vs)
  case Nil
  show ?case by auto
next
  case (Cons j js)
  show ?case
  proof (cases "take_row rows j")
    case (Inl e)
    then have "\<not> (- int (length rows) \<le> j \<and> j < int (length rows))"
      using take_row_Inr [of rows j] by auto
    with Inl show ?thesis by auto
  next
    case (Inr r)
    then have r: "- int (length rows) \<le> j" "j < int (length rows)"
      "r = rows ! nat (if 0 \<le> j then j else int (length rows) + j)"
      using take_row_Inr [of rows j r] by auto
    show ?thesis
    proof (cases "gather rows js")
      case (Inl e)
      with Cons.IH have "\<not> (\<forall>i \<in> set js. - int (length rows) \<le> i \<and> i < int (length rows))"
        by auto
      with Inl Inr show ?thesis by auto
    next
      case g: (Inr rs)
      with Cons.IH [of rs] have
        "\<forall>i \<in> set js. - int (length rows) \<le> i \<and> i < int (length rows)"
        "rs = map (\<lambda>i. rows ! nat (if 0 \<le> i then i else int (length rows) + i)) js"
        by auto
      with g Inr r show ?thesis by auto
    qed
  qed
qed

lemma wrap_result_Inr:
  "wrap_result idx q ir = Inr r \<longleftrightarrow>
     (\<forall>i \<in> set (indices ir).
        - int (length (embeddings idx)) \<le> i \<and> i < int (length (embeddings idx)))
     \<and> r = \<lparr>distances = distances ir, indices = indices ir, query = q,
            vectors = map (\<lambda>i. embeddings idx
                ! nat (if 0 \<le> i then i else int (length (embeddings idx)) + i))
              (indices ir)\<rparr>"
proof (cases "gather (embeddings idx) (indices ir)")
  case (Inl e)
  then have "\<not> (\<forall>i \<in> set (indices ir).
      - int (length (embeddings idx)) \<le> i \<and> i < int (length (embeddings idx)))"
    using gather_Inr [of "embeddings idx" "indices ir"] by auto
  with Inl show ?thesis by (simp add: wrap_result_def)
next
  case (Inr vs)
  then show ?thesis
    using gather_Inr [of "embeddings idx" "indices ir" vs] by (auto simp: wrap_result_def)
qed

text \<open>
  Claim C6.  \<open>search\<close> returns a result exactly when the query passes the four checks,
  \<open>_search\<close> (called once, with the query and \<open>k\<close>) returns normally and every index
  it returns addresses a row of the embedding matrix.  The result then carries the
  query, the indices and distances of \<open>_search\<close> unchanged, and as vectors the rows of
  the embedding matrix at those indices (a negative index counting from the end),
  gathered by \<open>search\<close> itself.
\<close>

theorem search_gathers_rows:
  "search idx q k = (calls, Inr r) \<longleftrightarrow>
     ndim q = 1 \<and> int (hd (shape q)) = dims idx \<and> in_range idx (data q) = Inr True \<and> 1 \<le> k
     \<and> calls = [SearchCall q k]
     \<and> (\<exists>ir. priv_search idx q k = Inr ir
          \<and> (\<forall>i \<in> set (indices ir).
                - int (length (embeddings idx)) \<le> i \<and> i < int (length (embeddings idx)))
          \<and> r = \<lparr>distances = distances ir, indices = indices ir, query = q,
                 vectors = map (\<lambda>i. embeddings idx
                     ! nat (if 0 \<le> i then i else int (length (embeddings idx)) + i))
                   (indices ir)\<rparr>)"
  by (auto simp: search_def wrap_result_Inr split: sum.splits if_splits)

theorem search_gathers_rows_witness:
  "search unit_square \<lparr>shape = [2], data = [1, 0]\<rparr> 1 =
     ([SearchCall \<lparr>shape = [2], data = [1, 0]\<rparr> 1],
      Inr \<lparr>distances = [0], indices = [3], query = \<lparr>shape = [2], data = [1, 0]\<rparr>,
           vectors = [[1, 1]]\<rparr>)"
proof -
  have r: "in_range unit_square [1, 0] = Inr True"
    by (simp add: in_range_def compare1d_def lower_def upper_def unit_square_def)
  have f: "dims unit_square = 2" "embeddings unit_square = [[0, 0], [1, 0], [0, 1], [1, 1]]"
    "priv_search unit_square q k = Inr \<lparr>distances = [0], indices = [3]\<rparr>" for q k
    by (simp_all add: unit_square_def)
  show ?thesis
    using search_gathers_rows [of unit_square "\<lparr>shape = [2], data = [1, 0]\<rparr>" 1
        "[SearchCall \<lparr>shape = [2], data = [1, 0]\<rparr> 1]"
        "\<lparr>distances = [0], indices = [3], query = \<lparr>shape = [2], data = [1, 0]\<rparr>,
           vectors = [[1, 1]]\<rparr>"]
    by (simp add: ndim_def r f)
qed

section \<open>The optimizer loop\<close>





text \<open>One step of the concrete optimizer.\<close>

lemma counting_search:
  "snd (search unit_square (np_array [1, 1]) 1)
     = Inr \<lparr>distances = [0], indices = [3], query = np_array [1, 1], vectors = [[1, 1]]\<rparr>"
  by (simp add: search_def ndim_def np_array_def in_range_def compare1d_def lower_def upper_def
      unit_square_def wrap_result_def take_row_def)






text \<open>
  Claim C7.  When the optimizer has not terminated, the external client proposes a
  trial, the query is built and searched, and the scoring function raises \<open>e\<close> on the
  search result, then \<open>step\<close> raises \<open>e\<close>; its only call to the external client is
  \<open>get_next_trial\<close>, so \<open>complete_trial\<close> is not invoked, and the optimizer it leaves
  behind has the counter already advanced.
\<close>

theorem scoring_failure_propagates:
  assumes "remaining_steps opt \<noteq> 0"
    and "get_next_trial ext (ax_client opt) = (Inr (parameters, trial_index), s1)"
    and "lookup_names parameters (parameter_name_list ext (dims (opt_index opt))) = Inr xs"
    and "snd (search (opt_index opt) (np_array xs) 1) = Inr result"
    and "evaluate_fn opt result = Inl e"
  shows "step ext opt =
           ([GetNextTrial], Inl e,
            opt\<lparr>remaining_steps :=
                  (if remaining_steps opt = - 1 then - 1 else remaining_steps opt - 1),
                ax_client := s1\<rparr>)"
  using assms
  by (simp add: step_def remaining_step_def evaluate_def evaluate_index_def)

theorem scoring_failure_propagates_witness:
  "step counting_client
     \<lparr>ax_client = (0, 0), remaining_steps = 3, opt_index = unit_square,
      evaluate_fn = failing_score\<rparr>
   = ([GetNextTrial], Inl (Exception ''scoring failed''),
      \<lparr>ax_client = (1, 0), remaining_steps = 2, opt_index = unit_square,
       evaluate_fn = failing_score\<rparr>)"
proof -
  let ?opt = "\<lparr>ax_client = (0::nat, 0::nat), remaining_steps = 3, opt_index = unit_square,
      evaluate_fn = failing_score\<rparr>"
  have a: "remaining_steps ?opt \<noteq> 0" by simp
  have b: "get_next_trial counting_client (ax_client ?opt)
      = (Inr ([''x0'' \<mapsto> 1, ''x1'' \<mapsto> 1], 0), (1, 0))"
    by (simp add: counting_client_def)
  have c: "lookup_names [''x0'' \<mapsto> 1, ''x1'' \<mapsto> 1]
      (parameter_name_list counting_client (dims (opt_index ?opt))) = Inr [1, 1::int]"
    by (simp add: counting_client_def)
  have d: "snd (search (opt_index ?opt) (np_array [1, 1]) 1)
      = Inr \<lparr>distances = [0], indices = [3], query = np_array [1, 1], vectors = [[1, 1]]\<rparr>"
    by (simp add: counting_search)
  have e: "evaluate_fn ?opt \<lparr>distances = [0], indices = [3], query = np_array [1, 1],
      vectors = [[1, 1]]\<rparr> = Inl (Exception ''scoring failed'')"
    by (simp add: failing_score_def)
  show ?thesis
    using scoring_failure_propagates [OF a b c d e] by simp
qed

end
